theory Spec2Isabelle
  imports Main "HOL-Library.Word" "HOL-Library.Char_ord" "HOL-Library.List_Lexorder"
begin

section \<open>The zapx log decorator: data model\<close>

text \<open>
  The development embeds the Stackdriver decorator of zapx (stackdriver.go), its field
  classifier \<open>parseFields\<close>, the scope derivation \<open>With\<close>, the write path \<open>Write\<close>, and the
  Slack notifier with its encoder and retry decision (the Slack source file).

  Go strings are byte strings: \<open>string\<close> (a list of 8-bit \<open>char\<close>), compared bytewise
  (\<open>Char_ord\<close>, \<open>List_Lexorder\<close>), as Go's \<open><\<close> on strings does.
\<close>

subsection \<open>Reserved keys (stackdriver.go, lines 12-16)\<close>

definition logKeySlackNotification :: string where
  "logKeySlackNotification = ''zapx.slack''"

definition logKeyContextInfo :: string where
  "logKeyContextInfo = ''zapx.context''"

definition logKeyLabelPrefix :: string where
  "logKeyLabelPrefix = ''zapx.label#''"

text \<open>\<open>type slackBehavior int\<close> with its three constants.\<close>

datatype slackBehavior = defaultSlack | enableSlack | disableSlack

subsection \<open>Errors, durations, levels\<close>

type_synonym Duration = int

text \<open>
  A Go \<open>error\<close> value, as far as the code inspects one: it is a
  \<open>*slack.RateLimitedError\<close> carrying \<open>RetryAfter\<close>, or a value of any other type, which
  has a message, may have a method \<open>Retryable() bool\<close> (its result when it has one) and may
  wrap another error (\<open>Unwrap\<close>).
\<close>

datatype error =
    RateLimitedError (RetryAfter: Duration)
  | OtherError (Msg: string) (Retryable: "bool option") (Unwrap: "error option")

text \<open>\<open>zapcore.Level\<close> with its seven named levels.\<close>

datatype Level =
  DebugLevel | InfoLevel | WarnLevel | ErrorLevel | DPanicLevel | PanicLevel | FatalLevel

subsection \<open>Fields\<close>

text \<open>\<open>zapcore.FieldType\<close>.\<close>

datatype FieldType =
    UnknownType | ArrayMarshalerType | ObjectMarshalerType | BinaryType | BoolType
  | ByteStringType | Complex128Type | Complex64Type | DurationType | Float64Type
  | Float32Type | Int64Type | Int32Type | Int16Type | Int8Type | StringType | TimeType
  | TimeFullType | Uint64Type | Uint32Type | Uint16Type | Uint8Type | UintptrType
  | ReflectType | NamespaceType | StringerType | ErrorType | SkipType | InlineMarshalerType

record contextInfo =
  IsSampled :: bool
  TraceID :: string
  SpanID :: string
  GrpcMethod :: string
  RequestID :: string

record serviceContext =
  Service :: string
  Version :: string

text \<open>
  The fields of \<open>sourceLocation\<close> are \<open>file\<close>, \<open>line\<close> and \<open>function\<close>; two of these are
  reserved words here, so the three carry the prefix \<open>sl_\<close>.
\<close>

record sourceLocation =
  sl_file :: string
  sl_line :: int
  sl_function :: string

record reportLocation =
  filePath :: string
  lineNumber :: int
  functionName :: string

record errorReportingContext =
  reportLocation :: reportLocation
  ctx_user :: string

text \<open>
  \<open>zapcore.Field\<close> is a struct of a key, a type tag, an int64, a string and an
  \<open>interface{}\<close>. The dynamic values the decorator stores or inspects in the interface
  slot are listed; \<open>IOther\<close> stands for a value of any other Go type (named by an opaque
  tag). \<open>ILabels\<close> holds the package's \<open>labels\<close> value, a slice of fields.
\<close>

datatype Field =
  Field (Key: string) (Type: FieldType) (Integer: "64 word") (String: string)
        (Interface: iface)
and iface =
    INil
  | IContextInfo contextInfo
  | IError error
  | ILabels "Field list"
  | ISourceLocation sourceLocation
  | IServiceContext serviceContext
  | IErrorReportingContext errorReportingContext
  | IOther string

text \<open>The zap field constructors the package uses.\<close>

definition zap_String :: "string \<Rightarrow> string \<Rightarrow> Field" where
  "zap_String key val = Field key StringType 0 val INil"

definition zap_Bool :: "string \<Rightarrow> bool \<Rightarrow> Field" where
  "zap_Bool key val = Field key BoolType (if val then 1 else 0) [] INil"

definition zap_Object :: "string \<Rightarrow> iface \<Rightarrow> Field" where
  "zap_Object key val = Field key ObjectMarshalerType 0 [] val"

definition zap_Reflect :: "string \<Rightarrow> iface \<Rightarrow> Field" where
  "zap_Reflect key val = Field key ReflectType 0 [] val"

definition zap_Error :: "error \<Rightarrow> Field" where
  "zap_Error err = Field ''error'' ErrorType 0 [] (IError err)"

text \<open>zapx.go: \<open>Label\<close> and \<open>Slack\<close>.\<close>

definition Label :: "string \<Rightarrow> string \<Rightarrow> Field" where
  "Label key val = zap_String (logKeyLabelPrefix @ key) val"

definition Slack :: "string list \<Rightarrow> Field" where
  "Slack url =
     (if length url > 0 then zap_String logKeySlackNotification (hd url)
      else zap_Bool logKeySlackNotification True)"

subsection \<open>Entries and the inner core\<close>

record EntryCaller =
  Defined :: bool
  File :: string
  Line :: int
  Function :: string

record Entry =
  Level :: Level
  Time :: int
  LoggerName :: string
  Message :: string
  Caller :: EntryCaller
  Stack :: string

text \<open>
  The inner \<open>zapcore.Core\<close>, seen through the two methods the decorator calls on it: what
  its \<open>Write\<close> returns for an entry and its fields (\<open>None\<close> is Go's nil error).
\<close>

record Core =
  core_Enabled :: "Level \<Rightarrow> bool"
  core_Write :: "Entry \<Rightarrow> Field list \<Rightarrow> error option"

text \<open>
  The struct \<open>stackdriver\<close>. \<open>slackWG\<close> is the wait group's counter. The boolean field
  \<open>enableSlack\<close> is named \<open>enableSlack_fld\<close> (the constant of type \<open>slackBehavior\<close> keeps
  the name), and the slice \<open>fields\<close> is named \<open>fields_fld\<close>.
\<close>

record stackdriver =
  projectID :: string
  parent :: Core
  svcCtx :: serviceContext
  slackURL :: string
  errorPraser :: "(error \<Rightarrow> iface \<times> bool) option"
  slackWG :: nat
  enableSlack_fld :: bool
  user :: string
  fields_fld :: "Field list"

section \<open>The field classifier (stackdriver.go, parseFields)\<close>

text \<open>\<open>strings.HasPrefix\<close> and \<open>strings.TrimPrefix\<close>.\<close>

definition HasPrefix :: "string \<Rightarrow> string \<Rightarrow> bool" where
  "HasPrefix s pre = (length s \<ge> length pre \<and> take (length pre) s = pre)"

definition TrimPrefix :: "string \<Rightarrow> string \<Rightarrow> string" where
  "TrimPrefix s pre = (if HasPrefix s pre then drop (length pre) s else s)"

text \<open>
  The variables of the loop of \<open>parseFields\<close>: the collected labels and the four named
  results.
\<close>

record pstate =
  p_labels :: "Field list"
  p_fs :: "Field list"
  p_user :: string
  p_sendSlack :: slackBehavior
  p_slackURL :: string

definition pstate0 :: pstate where
  "pstate0 = \<lparr>p_labels = [], p_fs = [], p_user = [], p_sendSlack = defaultSlack,
              p_slackURL = []\<rparr>"

text \<open>
  One iteration of the loop, for the field \<open>f\<close>. \<open>msg\<close> is the variadic parameter. The
  label test comes first and ends the iteration (\<open>continue\<close>); then the switch on the key.
\<close>

definition parseField :: "stackdriver \<Rightarrow> string list \<Rightarrow> pstate \<Rightarrow> Field \<Rightarrow> pstate" where
  "parseField s msg st f =
    (if HasPrefix (Key f) logKeyLabelPrefix then
       st\<lparr>p_labels := p_labels st @
            [zap_String (TrimPrefix (Key f) logKeyLabelPrefix) (String f)]\<rparr>
     else if Key f = ''user'' then
       (if Type f = StringType then st\<lparr>p_user := String f\<rparr> else st)
     else if Key f = ''stack_trace'' then
       (if Type f = StringType \<and> length msg > 0
        then st\<lparr>p_fs := p_fs st @
               [Field (Key f) (Type f) (Integer f) (hd msg @ [CHR 0x0A] @ String f)
                  (Interface f)]\<rparr>
        else st\<lparr>p_fs := p_fs st @ [f]\<rparr>)
     else if Key f = logKeyContextInfo then
       (case Interface f of
          IContextInfo info \<Rightarrow>
            st\<lparr>p_fs := p_fs st @
              (if IsSampled info then
                 [zap_Bool ''logging.googleapis.com/trace_sampled'' True,
                  zap_String ''logging.googleapis.com/trace'' (TraceID info),
                  zap_String ''logging.googleapis.com/spanId'' (SpanID info)]
               else []) @
              (if GrpcMethod info \<noteq> [] then [zap_String ''grpc_method'' (GrpcMethod info)]
               else []) @
              (if RequestID info \<noteq> [] then [zap_String ''request_id'' (RequestID info)]
               else [])\<rparr>
        | _ \<Rightarrow> st)
     else if Key f = logKeySlackNotification then
       (if Type f = BoolType then
          (if Integer f = 1
           then st\<lparr>p_sendSlack := enableSlack, p_slackURL := slackURL s\<rparr>
           else st\<lparr>p_sendSlack := disableSlack\<rparr>)
        else if Type f = StringType then
          st\<lparr>p_sendSlack := enableSlack, p_slackURL := String f\<rparr>
        else st)
     else
       (case errorPraser s of
          Some parser \<Rightarrow>
            (if Type f = ErrorType then
               (case Interface f of
                  IError err \<Rightarrow>
                    (case parser err of (obj, ok) \<Rightarrow>
                       if ok then st\<lparr>p_fs := p_fs st @ [zap_Object (Key f) obj]\<rparr>
                       else st\<lparr>p_fs := p_fs st @ [f]\<rparr>)
                | _ \<Rightarrow> st\<lparr>p_fs := p_fs st @ [f]\<rparr>)
             else st\<lparr>p_fs := p_fs st @ [f]\<rparr>)
        | None \<Rightarrow> st\<lparr>p_fs := p_fs st @ [f]\<rparr>))"

text \<open>
  \<open>parseFields\<close>: the loop over the fields in call order, then the labels object when
  at least one label was collected. The result is the tuple of the four named results
  \<open>(fs, user, sendSlack, slackURL)\<close>.
\<close>

definition parseFields ::
  "stackdriver \<Rightarrow> Field list \<Rightarrow> string list \<Rightarrow>
     Field list \<times> string \<times> slackBehavior \<times> string" where
  "parseFields s fs0 msg =
    (let st = foldl (parseField s msg) pstate0 fs0;
         fs = (if length (p_labels st) \<noteq> 0
               then p_fs st @ [zap_Object ''logging.googleapis.com/labels''
                                 (ILabels (p_labels st))]
               else p_fs st)
     in (fs, p_user st, p_sendSlack st, p_slackURL st))"

section \<open>Library functions the package calls\<close>

text \<open>
  The package calls functions of zap, yaml, fmt, time, base64 and the backoff library whose
  code is not part of it. They are parameters of the model, collected in one record:
  \<^item> \<open>TrimmedPath\<close>, \<open>Caller_String\<close>: the methods of \<open>zapcore.EntryCaller\<close>;
  \<^item> \<open>Format_RFC3339\<close>: \<open>Time.Format(time.RFC3339)\<close>; \<open>Local_Format_RFC3339\<close> the same
    after \<open>Local()\<close>; \<open>Unix\<close>: \<open>Time.Unix()\<close>; \<open>Duration_String\<close>: \<open>Duration.String()\<close>;
  \<^item> \<open>yaml_Marshal\<close>: \<open>yaml.Marshal\<close>, an error or the serialized bytes;
  \<^item> \<open>base64\<close>: \<open>base64.StdEncoding.EncodeToString\<close>;
  \<^item> \<open>fmt_x\<close>, \<open>fmt_d\<close>: the verbs \<open>%x\<close> and \<open>%d\<close> of an integer; \<open>fmt_f64\<close>, \<open>fmt_f32\<close>,
    \<open>fmt_c128\<close>, \<open>fmt_c64\<close>: the verb \<open>%f\<close> of a float or complex number, given by its bits;
  \<^item> \<open>AddTo\<close>: \<open>zapcore.Field.AddTo\<close>, as the sequence of encoder methods it calls for a
    field;
  \<^item> \<open>Invoke\<close>: the result of \<open>backoff.Invoke\<close> for the send function of a destination
    and payload, with the default retrier;
  \<^item> \<open>Backoff_Backoff\<close>: the method \<open>Backoff\<close> of \<open>*backoff.Backoff\<close>, for a receiver
    that may be nil.
\<close>

typedecl Backoff

record TextBlockObject =
  tb_Type :: string
  tb_Text :: string

datatype Block =
    SectionBlock (sb_Type: string) (sb_Text: "TextBlockObject option")
                 (sb_Fields: "TextBlockObject list")
  | DividerBlock

record Attachment =
  Color :: string
  Blocks :: "Block list"

record WebhookMessage =
  Attachments :: "Attachment list"

text \<open>The methods of \<open>zapcore.ObjectEncoder\<close> that \<open>slackEncoder\<close> implements, as calls.\<close>

datatype enc_call =
    AddArray string iface
  | AddObject string iface
  | AddBinary string string
  | AddByteString string string
  | AddBool string bool
  | AddComplex128 string "64 word \<times> 64 word"
  | AddComplex64 string "32 word \<times> 32 word"
  | AddDuration string Duration
  | AddFloat64 string "64 word"
  | AddFloat32 string "32 word"
  | AddInt string "64 word"
  | AddInt64 string "64 word"
  | AddInt32 string "32 word"
  | AddInt16 string "16 word"
  | AddInt8 string "8 word"
  | AddString string string
  | AddTime string int
  | AddUint string "64 word"
  | AddUint64 string "64 word"
  | AddUint32 string "32 word"
  | AddUint16 string "16 word"
  | AddUint8 string "8 word"
  | AddUintptr string "64 word"
  | AddReflected string iface
  | OpenNamespace string

record extern =
  TrimmedPath :: "EntryCaller \<Rightarrow> string"
  Caller_String :: "EntryCaller \<Rightarrow> string"
  Format_RFC3339 :: "int \<Rightarrow> string"
  Local_Format_RFC3339 :: "int \<Rightarrow> string"
  Unix :: "int \<Rightarrow> int"
  Duration_String :: "Duration \<Rightarrow> string"
  yaml_Marshal :: "iface \<Rightarrow> error + string"
  base64 :: "string \<Rightarrow> string"
  fmt_x :: "int \<Rightarrow> string"
  fmt_d :: "int \<Rightarrow> string"
  fmt_f64 :: "64 word \<Rightarrow> string"
  fmt_f32 :: "32 word \<Rightarrow> string"
  fmt_c128 :: "64 word \<times> 64 word \<Rightarrow> string"
  fmt_c64 :: "32 word \<times> 32 word \<Rightarrow> string"
  AddTo :: "Field \<Rightarrow> enc_call list"
  Invoke :: "string \<Rightarrow> WebhookMessage \<Rightarrow> error option"
  Backoff_Backoff :: "Backoff option \<Rightarrow> int \<Rightarrow> Duration"

section \<open>The decorator (stackdriver.go, utils.go)\<close>

definition reportLocationFromEntry :: "extern \<Rightarrow> Entry \<Rightarrow> reportLocation" where
  "reportLocationFromEntry x ent =
    (let caller = Caller ent in
     if \<not> Defined caller then \<lparr>filePath = [], lineNumber = 0, functionName = []\<rparr>
     else \<lparr>filePath = TrimmedPath x caller, lineNumber = Line caller,
           functionName = Function caller\<rparr>)"

definition sourceLocationFromEntry :: "extern \<Rightarrow> Entry \<Rightarrow> sourceLocation" where
  "sourceLocationFromEntry x ent =
    (let caller = Caller ent in
     if \<not> Defined caller then \<lparr>sl_file = [], sl_line = 0, sl_function = []\<rparr>
     else \<lparr>sl_file = TrimmedPath x caller, sl_line = Line caller,
           sl_function = Function caller\<rparr>)"

text \<open>
  \<open>With\<close>. The struct literal of the new decorator names \<open>parent\<close>, \<open>projectID\<close>, \<open>svcCtx\<close>,
  \<open>slackURL\<close>, \<open>errorPraser\<close>, \<open>user\<close> and \<open>fields\<close>; the wait group and \<open>enableSlack\<close> get
  Go's zero values. The two \<open>if\<close> statements on the classifier's results follow.
\<close>

definition With :: "stackdriver \<Rightarrow> Field list \<Rightarrow> stackdriver" where
  "With s fs0 =
    (case parseFields s fs0 [] of (fs, usr, sendSlack, url) \<Rightarrow>
      let usr1 = (if usr = [] then user s else usr);
          newFileds = fields_fld s @ fs;
          news = \<lparr>projectID = projectID s, parent = parent s, svcCtx = svcCtx s,
                  slackURL = slackURL s, errorPraser = errorPraser s, slackWG = 0,
                  enableSlack_fld = False, user = usr1, fields_fld = newFileds\<rparr>;
          news1 = (if url \<noteq> [] then news\<lparr>slackURL := url\<rparr> else news);
          news2 = (if sendSlack = disableSlack then news1\<lparr>enableSlack_fld := False\<rparr>
                   else if sendSlack = enableSlack then news1\<lparr>enableSlack_fld := True\<rparr>
                   else news1)
      in news2)"

text \<open>
  What one call of \<open>Write\<close> does: the receiver afterwards (its wait group counter), the
  notification tasks started by the \<open>go\<close> statement with their arguments, the calls of the
  inner core's \<open>Write\<close> with their arguments, and the value returned.
\<close>

record WriteOutcome =
  w_self :: stackdriver
  w_spawned :: "(string \<times> Entry \<times> Field list) list"
  w_inner :: "(Entry \<times> Field list) list"
  w_ret :: "error option"

text \<open>The entry after the first statement of \<open>Write\<close>.\<close>

definition prefixed :: "Entry \<Rightarrow> Entry" where
  "prefixed ent =
    (if LoggerName ent \<noteq> [] \<and> LoggerName ent \<noteq> ''unknown''
     then ent\<lparr>Message := LoggerName ent @ '': '' @ Message ent\<rparr>
     else ent)"

definition Write :: "extern \<Rightarrow> stackdriver \<Rightarrow> Entry \<Rightarrow> Field list \<Rightarrow> WriteOutcome" where
  "Write x s ent0 fs0 =
    (let ent = prefixed ent0;
         rloc = reportLocationFromEntry x ent;
         sloc = sourceLocationFromEntry x ent
     in case parseFields s fs0 [Message ent] of (fs1, usr, sendSlack, url) \<Rightarrow>
      let fs2 = fs1 @ fields_fld s;
          usr1 = (if usr = [] then user s else usr);
          fs = fs2 @ [zap_Object ''logging.googleapis.com/sourceLocation'' (ISourceLocation sloc),
                      zap_Object ''serviceContext'' (IServiceContext (svcCtx s)),
                      zap_Object ''context''
                        (IErrorReportingContext \<lparr>reportLocation = rloc, ctx_user = usr1\<rparr>)]
      in if sendSlack = enableSlack \<or> (sendSlack = defaultSlack \<and> enableSlack_fld s)
         then \<lparr>w_self = s\<lparr>slackWG := slackWG s + 1\<rparr>, w_spawned = [(url, ent, fs)],
               w_inner = [(ent, fs)], w_ret = core_Write (parent s) ent fs\<rparr>
         else \<lparr>w_self = s, w_spawned = [], w_inner = [(ent, fs)],
               w_ret = core_Write (parent s) ent fs\<rparr>)"

text \<open>zapx.go: the level encoder of \<open>StackdriverEncoderConfig\<close>.\<close>

fun EncodeLevel :: "Level \<Rightarrow> string" where
  "EncodeLevel DebugLevel = ''DEBUG''"
| "EncodeLevel InfoLevel = ''INFO''"
| "EncodeLevel WarnLevel = ''WARNING''"
| "EncodeLevel ErrorLevel = ''ERROR''"
| "EncodeLevel DPanicLevel = ''CRITICAL''"
| "EncodeLevel PanicLevel = ''ALERT''"
| "EncodeLevel FatalLevel = ''EMERGENCY''"

section \<open>The Slack notifier\<close>

definition levelColorMap :: "Level \<rightharpoonup> string" where
  "levelColorMap =
     [DebugLevel \<mapsto> ''#2196F3'', InfoLevel \<mapsto> ''#9E9E9E'', WarnLevel \<mapsto> ''#FF9800'',
      ErrorLevel \<mapsto> ''#D50000'', FatalLevel \<mapsto> ''#D50000'', PanicLevel \<mapsto> ''#D50000'']"

subsection \<open>The retry decision\<close>



text \<open>The method \<open>Error()\<close> of an error value.\<close>

definition error_text :: "extern \<Rightarrow> error \<Rightarrow> string" where
  "error_text x err =
    (case err of
       RateLimitedError d \<Rightarrow> ''slack rate limit exceeded, retry after '' @ Duration_String x d
     | OtherError m r u \<Rightarrow> m)"



subsection \<open>The encoder\<close>

record slackEncoder =
  Fields :: "TextBlockObject list"
  ErrField :: "TextBlockObject option"

text \<open>\<open>sort.Slice\<close> by \<open>Text\<close>: the texts in ascending byte order.\<close>

definition sort_enc :: "slackEncoder \<Rightarrow> slackEncoder" where
  "sort_enc enc = enc\<lparr>Fields := sort_key tb_Text (Fields enc)\<rparr>"

definition addField :: "slackEncoder \<Rightarrow> string \<Rightarrow> TextBlockObject \<Rightarrow> slackEncoder" where
  "addField enc key field =
    (if key = ''error'' then enc\<lparr>ErrField := Some field\<rparr>
     else enc\<lparr>Fields := Fields enc @ [field]\<rparr>)"

text \<open>
  \<open>mrkdwn key body\<close> is the block \<open>{Type: "mrkdwn", Text: "*" + key + "*\n" + body}\<close> that every
  method builds with \<open>fmt.Sprintf\<close>; \<open>fenced\<close> wraps the body in three backquotes on each
  side, as the format \<open>"*%s*\n```%s```"\<close> does.
\<close>

definition mrkdwn :: "string \<Rightarrow> string \<Rightarrow> TextBlockObject" where
  "mrkdwn key body = \<lparr>tb_Type = ''mrkdwn'', tb_Text = ''*'' @ key @ ''*'' @ [CHR 0x0A] @ body\<rparr>"

definition fenced :: "string \<Rightarrow> string" where
  "fenced buf = ''```'' @ buf @ ''```''"

definition fmt_t :: "bool \<Rightarrow> string" where
  "fmt_t b = (if b then ''true'' else ''false'')"

text \<open>
  One method call on the encoder: the encoder afterwards and the error returned (\<open>None\<close>
  for nil and for the methods without a result).
\<close>

fun enc_apply :: "extern \<Rightarrow> slackEncoder \<Rightarrow> enc_call \<Rightarrow> slackEncoder \<times> error option" where
  "enc_apply x enc (AddArray key v) =
     (case yaml_Marshal x v of
        Inl err \<Rightarrow> (enc, Some err)
      | Inr buf \<Rightarrow> (addField enc key (mrkdwn key (fenced buf)), None))"
| "enc_apply x enc (AddObject key v) =
     (if key = ''serviceContext'' then (enc, None)
      else case yaml_Marshal x v of
        Inl err \<Rightarrow> (enc, Some err)
      | Inr buf \<Rightarrow>
          (if buf = ''{}'' @ [CHR 0x0A] \<or> buf = ''{}'' \<or> buf = [] then (enc, None)
           else (addField enc key (mrkdwn key (fenced buf)), None)))"
| "enc_apply x enc (AddBinary key v) = (addField enc key (mrkdwn key (base64 x v)), None)"
| "enc_apply x enc (AddByteString key v) = (addField enc key (mrkdwn key v), None)"
| "enc_apply x enc (AddBool key v) = (addField enc key (mrkdwn key (fmt_t v)), None)"
| "enc_apply x enc (AddComplex128 key v) =
     (addField enc key (mrkdwn key (''complex128='' @ fmt_c128 x v)), None)"
| "enc_apply x enc (AddComplex64 key v) =
     (addField enc key (mrkdwn key (''complex64='' @ fmt_c64 x v)), None)"
| "enc_apply x enc (AddDuration key v) =
     (addField enc key (mrkdwn key (Duration_String x v)), None)"
| "enc_apply x enc (AddFloat64 key v) =
     (addField enc key (mrkdwn key (''float64='' @ fmt_f64 x v)), None)"
| "enc_apply x enc (AddFloat32 key v) =
     (addField enc key (mrkdwn key (''float32='' @ fmt_f32 x v)), None)"
| "enc_apply x enc (AddInt key v) =
     (addField enc key
        (mrkdwn key (''int=0x'' @ fmt_x x (sint v) @ '' ('' @ fmt_d x (sint v) @ '')'')), None)"
| "enc_apply x enc (AddInt64 key v) =
     (addField enc key
        (mrkdwn key (''int64=0x'' @ fmt_x x (sint v) @ '' ('' @ fmt_d x (sint v) @ '')'')), None)"
| "enc_apply x enc (AddInt32 key v) =
     (addField enc key
        (mrkdwn key (''int32=0x'' @ fmt_x x (sint v) @ '' ('' @ fmt_d x (sint v) @ '')'')), None)"
| "enc_apply x enc (AddInt16 key v) =
     (addField enc key
        (mrkdwn key (''int16=0x'' @ fmt_x x (sint v) @ '' ('' @ fmt_d x (sint v) @ '')'')), None)"
| "enc_apply x enc (AddInt8 key v) =
     (addField enc key
        (mrkdwn key (''int8=0x'' @ fmt_x x (sint v) @ '' ('' @ fmt_d x (sint v) @ '')'')), None)"
| "enc_apply x enc (AddString key v) = (addField enc key (mrkdwn key v), None)"
| "enc_apply x enc (AddTime key v) =
     (addField enc key
        (mrkdwn key (''time='' @ Local_Format_RFC3339 x v @ '' ('' @ fmt_d x (Unix x v) @ '')'')),
      None)"
| "enc_apply x enc (AddUint key v) =
     (addField enc key
        (mrkdwn key (''uint=0x'' @ fmt_x x (uint v) @ '' ('' @ fmt_d x (uint v) @ '')'')), None)"
| "enc_apply x enc (AddUint64 key v) =
     (addField enc key
        (mrkdwn key (''uint64=0x'' @ fmt_x x (uint v) @ '' ('' @ fmt_d x (uint v) @ '')'')), None)"
| "enc_apply x enc (AddUint32 key v) =
     (addField enc key
        (mrkdwn key (''uint32=0x'' @ fmt_x x (uint v) @ '' ('' @ fmt_d x (uint v) @ '')'')), None)"
| "enc_apply x enc (AddUint16 key v) =
     (addField enc key
        (mrkdwn key (''uint16=0x'' @ fmt_x x (uint v) @ '' ('' @ fmt_d x (uint v) @ '')'')), None)"
| "enc_apply x enc (AddUint8 key v) =
     (addField enc key
        (mrkdwn key (''uint8=0x'' @ fmt_x x (uint v) @ '' ('' @ fmt_d x (uint v) @ '')'')), None)"
| "enc_apply x enc (AddUintptr key v) =
     (addField enc key
        (mrkdwn key (''uintptr=0x'' @ fmt_x x (uint v) @ '' ('' @ fmt_d x (uint v) @ '')'')), None)"
| "enc_apply x enc (AddReflected key v) =
     (case yaml_Marshal x v of
        Inl err \<Rightarrow> (enc, Some err)
      | Inr buf \<Rightarrow> (addField enc key (mrkdwn key (fenced buf)), None))"
| "enc_apply x enc (OpenNamespace key) = (enc, None)"

text \<open>A sequence of method calls on the encoder, in order.\<close>

definition enc_calls :: "extern \<Rightarrow> slackEncoder \<Rightarrow> enc_call list \<Rightarrow> slackEncoder" where
  "enc_calls x enc cs = foldl (\<lambda>e c. fst (enc_apply x e c)) enc cs"

text \<open>
  The encoder that \<open>sendSlackNotification\<close> reads its payload from: a fresh encoder, the
  calls made on it, then \<open>sort\<close>.
\<close>

definition rendered :: "extern \<Rightarrow> enc_call list \<Rightarrow> slackEncoder" where
  "rendered x cs = sort_enc (enc_calls x \<lparr>Fields = [], ErrField = None\<rparr> cs)"

subsection \<open>The notification task\<close>

text \<open>
  The effects of the task, in order: the delivery started through \<open>backoff.Invoke\<close> (with
  its destination and payload), a line on the diagnostic log, and the release of the
  wait group slot by the deferred \<open>slackWG.Done()\<close>.
\<close>

datatype event =
    Delivery string WebhookMessage
  | Logged string
  | WGDone


definition sendSlackNotification ::
  "extern \<Rightarrow> stackdriver \<Rightarrow> string \<Rightarrow> Entry \<Rightarrow> Field list \<Rightarrow> event list" where
  "sendSlackNotification x s slackurl ent fs =
    (if slackurl = [] then [WGDone]
     else case levelColorMap (Level ent) of
       None \<Rightarrow> [WGDone]
     | Some color \<Rightarrow>
        (let enc = rendered x (concat (map (AddTo x) fs));
             headFields =
               [mrkdwn ''Service'' (Service (svcCtx s)),
                mrkdwn ''Version'' (Version (svcCtx s)),
                mrkdwn ''Time'' (Format_RFC3339 x (Time ent))];
             head = SectionBlock ''section''
                      (Some (mrkdwn (Message ent) (Caller_String x (Caller ent))))
                      (case ErrField enc of None \<Rightarrow> headFields
                       | Some ef \<Rightarrow> headFields @ [ef]);
             attachment =
               \<lparr>Color = color,
                Blocks = (if length (Fields enc) \<noteq> 0
                          then [head, DividerBlock, SectionBlock ''section'' None (Fields enc)]
                          else [head])\<rparr>;
             payload = \<lparr>Attachments = [attachment]\<rparr>
         in [Delivery slackurl payload] @
            (case Invoke x slackurl payload of
               None \<Rightarrow> []
             | Some err \<Rightarrow>
                 [Logged (''zapx: failed to post slack notification after 10 retries: '' @
                          error_text x err)]) @
            [WGDone]))"

section \<open>Notions used in the statements\<close>

text \<open>
  \<open>emit s msg f\<close> is what one iteration of the classifier's loop appends to \<open>fs\<close> for the
  field \<open>f\<close>; \<open>isLabel\<close> is the loop's first test, and \<open>labelEntry\<close> the entry it appends to
  the labels. \<open>isTraceField\<close> holds of a field under one of the three trace keys.
\<close>

definition emit :: "stackdriver \<Rightarrow> string list \<Rightarrow> Field \<Rightarrow> Field list" where
  "emit s msg f = p_fs (parseField s msg pstate0 f)"

definition isLabel :: "Field \<Rightarrow> bool" where
  "isLabel f = HasPrefix (Key f) logKeyLabelPrefix"

definition labelEntry :: "Field \<Rightarrow> Field" where
  "labelEntry f = zap_String (TrimPrefix (Key f) logKeyLabelPrefix) (String f)"

definition isTraceField :: "Field \<Rightarrow> bool" where
  "isTraceField g = (Key g \<in> {''logging.googleapis.com/trace_sampled'',
      ''logging.googleapis.com/trace'', ''logging.googleapis.com/spanId''})"

text \<open>
  Concrete inputs: an inner core that accepts every entry, and a decorator as \<open>Zap\<close> builds
  it for a service \<open>svc\<close> with the destination \<open>https://hook\<close>.
\<close>

definition core0 :: Core where
  "core0 = \<lparr>core_Enabled = (\<lambda>l. True), core_Write = (\<lambda>e fs. None)\<rparr>"

definition s0 :: stackdriver where
  "s0 = \<lparr>projectID = ''p'', parent = core0, svcCtx = \<lparr>Service = ''svc'', Version = ''v1''\<rparr>,
          slackURL = ''https://hook'', errorPraser = None, slackWG = 0, enableSlack_fld = False,
          user = [], fields_fld = []\<rparr>"

text \<open>Three fields under the key \<open>zapx.context\<close>: sampled, not sampled, and one whose value is
  not a \<open>contextInfo\<close>.\<close>

definition ctxSampled :: Field where
  "ctxSampled = zap_Reflect logKeyContextInfo
     (IContextInfo \<lparr>IsSampled = True, TraceID = ''t1'', SpanID = ''s1'', GrpcMethod = ''/svc/M'',
                    RequestID = []\<rparr>)"

definition ctxUnsampled :: Field where
  "ctxUnsampled = zap_Reflect logKeyContextInfo
     (IContextInfo \<lparr>IsSampled = False, TraceID = ''t1'', SpanID = ''s1'', GrpcMethod = ''/svc/M'',
                    RequestID = ''r1''\<rparr>)"

definition ctxMalformed :: Field where
  "ctxMalformed = zap_String logKeyContextInfo ''oops''"

text \<open>
  A field is reserved when the classifier interprets it: a label-prefixed key, one of the
  four fixed keys, or an error field while an error renderer is configured.
\<close>

definition reserved :: "stackdriver \<Rightarrow> Field \<Rightarrow> bool" where
  "reserved s f =
    (HasPrefix (Key f) logKeyLabelPrefix \<or>
     Key f \<in> {''user'', ''stack_trace'', logKeyContextInfo, logKeySlackNotification} \<or>
     (errorPraser s \<noteq> None \<and> Type f = ErrorType))"

text \<open>
  The three objects \<open>Write\<close> appends last, for the resolved user \<open>usr\<close>; \<open>finalFields\<close> is
  the whole field set \<open>Write\<close> builds.
\<close>

definition metaFields :: "extern \<Rightarrow> stackdriver \<Rightarrow> Entry \<Rightarrow> string \<Rightarrow> Field list" where
  "metaFields x s ent usr =
    [zap_Object ''logging.googleapis.com/sourceLocation''
       (ISourceLocation (sourceLocationFromEntry x ent)),
     zap_Object ''serviceContext'' (IServiceContext (svcCtx s)),
     zap_Object ''context''
       (IErrorReportingContext
          \<lparr>reportLocation = reportLocationFromEntry x ent, ctx_user = usr\<rparr>)]"

text \<open>
  A concrete instance of the library functions (strings, booleans and objects are handed to
  the encoder by the method of their kind), and an entry without a defined caller.
\<close>

definition extern0 :: extern where
  "extern0 =
    \<lparr>TrimmedPath = File, Caller_String = File, Format_RFC3339 = (\<lambda>t. ''T''),
     Local_Format_RFC3339 = (\<lambda>t. ''T''), Unix = (\<lambda>t. t div 1000000000),
     Duration_String = (\<lambda>d. ''D''),
     yaml_Marshal = (\<lambda>v. case v of IOther tag \<Rightarrow> Inr tag | _ \<Rightarrow> Inr (''{}'' @ [CHR 0x0A])),
     base64 = (\<lambda>b. b), fmt_x = (\<lambda>i. ''X''), fmt_d = (\<lambda>i. ''N''), fmt_f64 = (\<lambda>w. ''F''),
     fmt_f32 = (\<lambda>w. ''F''), fmt_c128 = (\<lambda>w. ''C''), fmt_c64 = (\<lambda>w. ''C''),
     AddTo = (\<lambda>f. if Type f = StringType then [AddString (Key f) (String f)]
                   else if Type f = BoolType then [AddBool (Key f) (Integer f = 1)]
                   else if Type f = ObjectMarshalerType then [AddObject (Key f) (Interface f)]
                   else []),
     Invoke = (\<lambda>url payload. None), Backoff_Backoff = (\<lambda>b n. 1000000000)\<rparr>"

definition ent0 :: Entry where
  "ent0 = \<lparr>Level = ErrorLevel, Time = 0, LoggerName = ''svc'', Message = ''boom'',
           Caller = \<lparr>Defined = False, File = [], Line = 0, Function = []\<rparr>, Stack = []\<rparr>"










section \<open>The classifier, field by field\<close>

lemma fs_step: "p_fs (parseField s msg st f) = p_fs st @ emit s msg f"
  by (simp add: emit_def parseField_def pstate0_def split: iface.splits option.splits prod.splits)

lemma labels_step: "p_labels (parseField s msg st f) = p_labels st @ (if isLabel f then [labelEntry f] else [])"
  by (simp add: parseField_def isLabel_def labelEntry_def split: iface.splits option.splits prod.splits)

lemma fs_fold: "p_fs (foldl (parseField s msg) st xs) = p_fs st @ concat (map (emit s msg) xs)"
proof (induction xs arbitrary: st)
  case Nil show ?case by simp
next
  case (Cons a xs)
  show ?case by (simp add: Cons.IH fs_step [of s msg st a])
qed

lemma labels_fold: "p_labels (foldl (parseField s msg) st xs) = p_labels st @ map labelEntry (filter isLabel xs)"
proof (induction xs arbitrary: st)
  case Nil show ?case by simp
next
  case (Cons a xs)
  show ?case by (simp add: Cons.IH labels_step [of s msg st a])
qed

lemma forward_eq:
  "fst (parseFields s xs msg) =
     concat (map (emit s msg) xs) @
     (if filter isLabel xs = [] then []
      else [zap_Object ''logging.googleapis.com/labels'' (ILabels (map labelEntry (filter isLabel xs)))])"
  by (simp add: parseFields_def Let_def fs_fold labels_fold pstate0_def)

lemma emit_label: "isLabel f \<Longrightarrow> emit s msg f = []"
  by (simp add: emit_def parseField_def isLabel_def pstate0_def)

lemma emit_keys: "g \<in> set (emit s msg f) \<Longrightarrow>
   Key g = Key f \<or> (Key f = logKeyContextInfo \<and> Key g \<in> {''logging.googleapis.com/trace_sampled'', ''logging.googleapis.com/trace'', ''logging.googleapis.com/spanId'', ''grpc_method'', ''request_id''})"
  by (auto simp add: emit_def parseField_def pstate0_def zap_Object_def zap_String_def zap_Bool_def split: iface.splits option.splits prod.splits if_splits)

lemma emit_not_label: "g \<in> set (emit s msg f) \<Longrightarrow> \<not> isLabel g"
  by (auto simp add: emit_def parseField_def pstate0_def isLabel_def zap_Object_def zap_String_def zap_Bool_def HasPrefix_def logKeyLabelPrefix_def logKeyContextInfo_def split: iface.splits option.splits prod.splits if_splits)

lemma concat_emit_filter: "concat (map (emit s msg) (filter (\<lambda>f. \<not> isLabel f) xs)) = concat (map (emit s msg) xs)"
  by (induction xs) (simp_all add: emit_label)

lemma slack_step_other: "Key f \<noteq> logKeySlackNotification \<Longrightarrow>
  p_sendSlack (parseField s msg st f) = p_sendSlack st \<and> p_slackURL (parseField s msg st f) = p_slackURL st"
  by (simp add: parseField_def split: iface.splits option.splits prod.splits)

lemma slack_fold_other: "\<forall>g\<in>set xs. Key g \<noteq> logKeySlackNotification \<Longrightarrow>
  p_sendSlack (foldl (parseField s msg) st xs) = p_sendSlack st \<and> p_slackURL (foldl (parseField s msg) st xs) = p_slackURL st"
  by (induction xs arbitrary: st) (simp_all add: slack_step_other)

lemma slack_not_label: "\<not> HasPrefix logKeySlackNotification logKeyLabelPrefix"
  by (simp add: HasPrefix_def logKeySlackNotification_def logKeyLabelPrefix_def)

lemma slack_step:
  "Key f = logKeySlackNotification \<Longrightarrow>
   parseField s msg st f =
     (if Type f = BoolType then
        (if Integer f = 1 then st\<lparr>p_sendSlack := enableSlack, p_slackURL := slackURL s\<rparr>
         else st\<lparr>p_sendSlack := disableSlack\<rparr>)
      else if Type f = StringType then st\<lparr>p_sendSlack := enableSlack, p_slackURL := String f\<rparr>
      else st)"
  by (simp add: parseField_def slack_not_label) (simp add: logKeySlackNotification_def logKeyContextInfo_def)

lemma emit_slack: "Key f = logKeySlackNotification \<Longrightarrow> emit s msg f = []"
  by (simp add: emit_def slack_step pstate0_def)

lemma emit_no_slack_key: "g \<in> set (emit s msg f) \<Longrightarrow> Key g \<noteq> logKeySlackNotification"
proof
  assume g: "g \<in> set (emit s msg f)" and k: "Key g = logKeySlackNotification"
  from emit_keys [OF g] k have "Key f = logKeySlackNotification"
    by (auto simp: logKeySlackNotification_def)
  with g show False by (simp add: emit_slack)
qed

section \<open>The Slack marker\<close>

text \<open>
  Claim C9. In a field sequence handed to the classifier, let \<open>f\<close> be a field under the
  key \<open>zapx.slack\<close> that no later field under that key follows. If \<open>f\<close> is a boolean
  \<open>true\<close> (type Bool, integer 1) the directive is \<open>enableSlack\<close> and the destination is
  the decorator's \<open>slackURL\<close>; if it is a boolean \<open>false\<close> the directive is
  \<open>disableSlack\<close>; if it is a string the directive is \<open>enableSlack\<close> and the destination
  is that string. In every case no field under the key \<open>zapx.slack\<close> is among the forward
  fields.
\<close>

theorem slack_marker_resolved:
  assumes key: "Key f = logKeySlackNotification"
    and later: "\<forall>g\<in>set post. Key g \<noteq> logKeySlackNotification"
    and res: "parseFields s (pre @ [f] @ post) msg = (fs, usr, directive, dest)"
  shows "(Type f = BoolType \<and> Integer f = 1 \<longrightarrow> directive = enableSlack \<and> dest = slackURL s) \<and>
         (Type f = BoolType \<and> Integer f \<noteq> 1 \<longrightarrow> directive = disableSlack) \<and>
         (Type f = StringType \<longrightarrow> directive = enableSlack \<and> dest = String f) \<and>
         (\<forall>g\<in>set fs. Key g \<noteq> logKeySlackNotification)"
proof -
  define st1 where "st1 = foldl (parseField s msg) pstate0 pre"
  have fold: "foldl (parseField s msg) pstate0 (pre @ f # post) =
              foldl (parseField s msg) (parseField s msg st1 f) post"
    by (simp add: st1_def)
  have "p_sendSlack (foldl (parseField s msg) pstate0 (pre @ f # post)) = directive"
    and "p_slackURL (foldl (parseField s msg) pstate0 (pre @ f # post)) = dest"
    using res by (simp_all add: parseFields_def Let_def)
  then have d: "directive = p_sendSlack (parseField s msg st1 f)"
    and u: "dest = p_slackURL (parseField s msg st1 f)"
    unfolding fold using slack_fold_other [OF later, of s msg "parseField s msg st1 f"]
    by simp_all
  have fs: "fs = fst (parseFields s (pre @ [f] @ post) msg)"
    using res by simp
  have keys: "\<forall>g\<in>set fs. Key g \<noteq> logKeySlackNotification"
  proof
    fix g assume "g \<in> set fs"
    then have "(\<exists>h. g \<in> set (emit s msg h)) \<or> Key g = ''logging.googleapis.com/labels''"
      unfolding fs forward_eq by (auto simp: zap_Object_def split: if_splits)
    then show "Key g \<noteq> logKeySlackNotification"
    proof
      assume "\<exists>h. g \<in> set (emit s msg h)"
      then show ?thesis using emit_no_slack_key by blast
    next
      assume "Key g = ''logging.googleapis.com/labels''"
      then show ?thesis by (simp add: logKeySlackNotification_def)
    qed
  qed
  show ?thesis
    using keys by (simp add: d u slack_step [OF key])
qed

theorem slack_marker_resolved_witness:
  "Key (Slack []) = logKeySlackNotification \<and>
   Key (Label ''a'' ''1'') \<noteq> logKeySlackNotification \<and>
   parseFields s0 ([zap_String ''k'' ''v''] @ [Slack []] @ [Label ''a'' ''1'']) [] =
     ([zap_String ''k'' ''v'',
       zap_Object ''logging.googleapis.com/labels'' (ILabels [zap_String ''a'' ''1''])],
      [], enableSlack, ''https://hook'')"
proof -
  have k: "Key (Slack []) = logKeySlackNotification"
    by (simp add: Slack_def zap_Bool_def)
  have l: "\<forall>g\<in>set [Label ''a'' ''1'']. Key g \<noteq> logKeySlackNotification"
    by (simp add: Label_def zap_String_def logKeyLabelPrefix_def logKeySlackNotification_def)
  have r: "parseFields s0 ([zap_String ''k'' ''v''] @ [Slack []] @ [Label ''a'' ''1'']) [] =
     ([zap_String ''k'' ''v'',
       zap_Object ''logging.googleapis.com/labels'' (ILabels [zap_String ''a'' ''1''])],
      [], enableSlack, ''https://hook'')"
    by code_simp
  from slack_marker_resolved [OF k l r] k l r show ?thesis by simp
qed

section \<open>Context fields\<close>

lemma ctx_not_label: "\<not> HasPrefix logKeyContextInfo logKeyLabelPrefix"
  by (simp add: HasPrefix_def logKeyContextInfo_def logKeyLabelPrefix_def)

lemma ctx_step:
  "Key f = logKeyContextInfo \<Longrightarrow>
   parseField s msg st f =
     (case Interface f of
        IContextInfo info \<Rightarrow>
          st\<lparr>p_fs := p_fs st @
            (if IsSampled info then
               [zap_Bool ''logging.googleapis.com/trace_sampled'' True,
                zap_String ''logging.googleapis.com/trace'' (TraceID info),
                zap_String ''logging.googleapis.com/spanId'' (SpanID info)]
             else []) @
            (if GrpcMethod info \<noteq> [] then [zap_String ''grpc_method'' (GrpcMethod info)] else []) @
            (if RequestID info \<noteq> [] then [zap_String ''request_id'' (RequestID info)] else [])\<rparr>
      | _ \<Rightarrow> st)"
  by (simp add: parseField_def ctx_not_label) (simp add: logKeyContextInfo_def)

lemma ctx_not_isLabel: "Key f = logKeyContextInfo \<Longrightarrow> \<not> isLabel f"
  by (simp add: isLabel_def ctx_not_label)

lemma emit_ctx_sampled:
  "Key f = logKeyContextInfo \<Longrightarrow> Interface f = IContextInfo info \<Longrightarrow> IsSampled info \<Longrightarrow>
   emit s msg f =
     [zap_Bool ''logging.googleapis.com/trace_sampled'' True,
      zap_String ''logging.googleapis.com/trace'' (TraceID info),
      zap_String ''logging.googleapis.com/spanId'' (SpanID info)] @
     (if GrpcMethod info \<noteq> [] then [zap_String ''grpc_method'' (GrpcMethod info)] else []) @
     (if RequestID info \<noteq> [] then [zap_String ''request_id'' (RequestID info)] else [])"
  by (simp add: emit_def ctx_step pstate0_def)

lemma emit_ctx_unsampled:
  "Key f = logKeyContextInfo \<Longrightarrow> Interface f = IContextInfo info \<Longrightarrow> \<not> IsSampled info \<Longrightarrow>
   emit s msg f =
     (if GrpcMethod info \<noteq> [] then [zap_String ''grpc_method'' (GrpcMethod info)] else []) @
     (if RequestID info \<noteq> [] then [zap_String ''request_id'' (RequestID info)] else [])"
  by (simp add: emit_def ctx_step pstate0_def)

lemma ctx_step_malformed:
  "Key f = logKeyContextInfo \<Longrightarrow> \<forall>info. Interface f \<noteq> IContextInfo info \<Longrightarrow>
   parseField s msg st f = st"
  by (simp add: ctx_step split: iface.splits)

lemma forward_insert:
  "\<not> isLabel f \<Longrightarrow>
   fst (parseFields s (pre @ [f] @ post) msg) =
     concat (map (emit s msg) pre) @ emit s msg f @ concat (map (emit s msg) post) @
     drop (length (concat (map (emit s msg) (pre @ post)))) (fst (parseFields s (pre @ post) msg))"
  by (simp add: forward_eq)

lemma forward_without:
  "fst (parseFields s (pre @ post) msg) =
     concat (map (emit s msg) pre) @ concat (map (emit s msg) post) @
     drop (length (concat (map (emit s msg) (pre @ post)))) (fst (parseFields s (pre @ post) msg))"
  by (simp add: forward_eq)

lemma labels_object_no_trace:
  "\<not> isTraceField (zap_Object ''logging.googleapis.com/labels'' v)"
  by (simp add: isTraceField_def zap_Object_def)

lemma forward_members:
  "g \<in> set (fst (parseFields s xs msg)) \<Longrightarrow>
   (\<exists>h\<in>set xs. g \<in> set (emit s msg h)) \<or>
   g = zap_Object ''logging.googleapis.com/labels'' (ILabels (map labelEntry (filter isLabel xs)))"
  unfolding forward_eq by (auto split: if_splits)

lemma emit_trace_origin:
  "g \<in> set (emit s msg h) \<Longrightarrow> isTraceField g \<Longrightarrow> isTraceField h \<or> Key h = logKeyContextInfo"
  using emit_keys [of g s msg h] by (auto simp: isTraceField_def)

text \<open>
  Claim C3. Let \<open>f\<close> be a field under the key \<open>zapx.context\<close> anywhere in the sequence
  handed to the classifier. If its value is a \<open>contextInfo\<close> with \<open>IsSampled\<close> true, the
  forward fields contain \<open>logging.googleapis.com/trace_sampled = true\<close>,
  \<open>logging.googleapis.com/trace = TraceID\<close> and \<open>logging.googleapis.com/spanId = SpanID\<close>.
  If \<open>IsSampled\<close> is false, whatever the other sub-fields hold, the field adds no field
  under these three keys: the trace fields of the output are those of the sequence
  without \<open>f\<close>, and there is none at all when no other field of the sequence is a context
  field or carries one of the three keys. If the value is not a \<open>contextInfo\<close>, all four
  results are those of the sequence without \<open>f\<close>. The classifier has no error result.
\<close>

theorem contextInfo_expanded:
  assumes key: "Key f = logKeyContextInfo"
  shows "(\<forall>info. Interface f = IContextInfo info \<and> IsSampled info \<longrightarrow>
            set [zap_Bool ''logging.googleapis.com/trace_sampled'' True,
                 zap_String ''logging.googleapis.com/trace'' (TraceID info),
                 zap_String ''logging.googleapis.com/spanId'' (SpanID info)]
            \<subseteq> set (fst (parseFields s (pre @ [f] @ post) msg))) \<and>
         (\<forall>info. Interface f = IContextInfo info \<and> \<not> IsSampled info \<longrightarrow>
            filter isTraceField (fst (parseFields s (pre @ [f] @ post) msg)) =
            filter isTraceField (fst (parseFields s (pre @ post) msg)) \<and>
            ((\<forall>g\<in>set (pre @ post). \<not> isTraceField g \<and> Key g \<noteq> logKeyContextInfo) \<longrightarrow>
             (\<forall>g\<in>set (fst (parseFields s (pre @ [f] @ post) msg)). \<not> isTraceField g))) \<and>
         ((\<forall>info. Interface f \<noteq> IContextInfo info) \<longrightarrow>
            parseFields s (pre @ [f] @ post) msg = parseFields s (pre @ post) msg)"
proof (intro conjI allI impI ballI)
  fix info assume "Interface f = IContextInfo info \<and> IsSampled info"
  then have e: "emit s msg f =
     [zap_Bool ''logging.googleapis.com/trace_sampled'' True,
      zap_String ''logging.googleapis.com/trace'' (TraceID info),
      zap_String ''logging.googleapis.com/spanId'' (SpanID info)] @
     (if GrpcMethod info \<noteq> [] then [zap_String ''grpc_method'' (GrpcMethod info)] else []) @
     (if RequestID info \<noteq> [] then [zap_String ''request_id'' (RequestID info)] else [])"
    using emit_ctx_sampled [OF key] by simp
  have "set (emit s msg f) \<subseteq> set (fst (parseFields s (pre @ [f] @ post) msg))"
    unfolding forward_insert [OF ctx_not_isLabel [OF key]] by auto
  then show "set [zap_Bool ''logging.googleapis.com/trace_sampled'' True,
                 zap_String ''logging.googleapis.com/trace'' (TraceID info),
                 zap_String ''logging.googleapis.com/spanId'' (SpanID info)]
            \<subseteq> set (fst (parseFields s (pre @ [f] @ post) msg))"
    unfolding e by auto
next
  fix info assume a: "Interface f = IContextInfo info \<and> \<not> IsSampled info"
  have e: "filter isTraceField (emit s msg f) = []"
    using emit_ctx_unsampled [OF key, of info s msg] a
    by (simp add: isTraceField_def zap_String_def)
  have "filter isTraceField (fst (parseFields s (pre @ [f] @ post) msg)) =
        filter isTraceField (concat (map (emit s msg) pre)) @
        filter isTraceField (emit s msg f) @
        filter isTraceField (concat (map (emit s msg) post) @
          drop (length (concat (map (emit s msg) (pre @ post)))) (fst (parseFields s (pre @ post) msg)))"
    by (subst forward_insert [OF ctx_not_isLabel [OF key]]) simp
  also have "\<dots> = filter isTraceField (fst (parseFields s (pre @ post) msg))"
    unfolding e by (subst (2) forward_without) simp
  finally show "filter isTraceField (fst (parseFields s (pre @ [f] @ post) msg)) =
            filter isTraceField (fst (parseFields s (pre @ post) msg))" .
next
  fix info g
  assume a: "Interface f = IContextInfo info \<and> \<not> IsSampled info"
    and others: "\<forall>g\<in>set (pre @ post). \<not> isTraceField g \<and> Key g \<noteq> logKeyContextInfo"
    and g: "g \<in> set (fst (parseFields s (pre @ [f] @ post) msg))"
  have e: "filter isTraceField (emit s msg f) = []"
    using emit_ctx_unsampled [OF key, of info s msg] a
    by (simp add: isTraceField_def zap_String_def)
  show "\<not> isTraceField g"
  proof
    assume t: "isTraceField g"
    from forward_members [OF g] t labels_object_no_trace
    obtain h where h: "h \<in> set (pre @ [f] @ post)" and gh: "g \<in> set (emit s msg h)"
      by blast
    show False
    proof (cases "h = f")
      case True
      with gh t have "g \<in> set (filter isTraceField (emit s msg f))" by simp
      with e show False by simp
    next
      case False
      with h have "h \<in> set (pre @ post)" by auto
      with others emit_trace_origin [OF gh t] show False by blast
    qed
  qed
next
  assume "\<forall>info. Interface f \<noteq> IContextInfo info"
  then have "\<And>st. parseField s msg st f = st"
    using ctx_step_malformed [OF key] by simp
  then show "parseFields s (pre @ [f] @ post) msg = parseFields s (pre @ post) msg"
    by (simp add: parseFields_def)
qed


theorem contextInfo_expanded_witness:
  "Key ctxSampled = logKeyContextInfo \<and>
   fst (parseFields s0 ([zap_String ''k'' ''v''] @ [ctxSampled] @ []) []) =
     [zap_String ''k'' ''v'', zap_Bool ''logging.googleapis.com/trace_sampled'' True,
      zap_String ''logging.googleapis.com/trace'' ''t1'',
      zap_String ''logging.googleapis.com/spanId'' ''s1'', zap_String ''grpc_method'' ''/svc/M''] \<and>
   set [zap_Bool ''logging.googleapis.com/trace_sampled'' True,
        zap_String ''logging.googleapis.com/trace'' ''t1'',
        zap_String ''logging.googleapis.com/spanId'' ''s1'']
     \<subseteq> set (fst (parseFields s0 ([zap_String ''k'' ''v''] @ [ctxSampled] @ []) [])) \<and>
   Key ctxUnsampled = logKeyContextInfo \<and>
   fst (parseFields s0 ([zap_String ''k'' ''v''] @ [ctxUnsampled] @ []) []) =
     [zap_String ''k'' ''v'', zap_String ''grpc_method'' ''/svc/M'',
      zap_String ''request_id'' ''r1''] \<and>
   filter isTraceField (fst (parseFields s0 ([zap_String ''k'' ''v''] @ [ctxUnsampled] @ []) [])) = [] \<and>
   Key ctxMalformed = logKeyContextInfo \<and>
   parseFields s0 ([zap_String ''k'' ''v''] @ [ctxMalformed] @ []) [] =
     parseFields s0 ([zap_String ''k'' ''v''] @ []) []"
proof -
  have k1: "Key ctxSampled = logKeyContextInfo"
    and k2: "Key ctxUnsampled = logKeyContextInfo"
    and k3: "Key ctxMalformed = logKeyContextInfo"
    by (simp_all add: ctxSampled_def ctxUnsampled_def ctxMalformed_def zap_Reflect_def
          zap_String_def)
  have i1: "Interface ctxSampled = IContextInfo \<lparr>IsSampled = True, TraceID = ''t1'',
               SpanID = ''s1'', GrpcMethod = ''/svc/M'', RequestID = []\<rparr>"
    and i2: "Interface ctxUnsampled = IContextInfo \<lparr>IsSampled = False, TraceID = ''t1'',
               SpanID = ''s1'', GrpcMethod = ''/svc/M'', RequestID = ''r1''\<rparr>"
    and i3: "\<forall>info. Interface ctxMalformed \<noteq> IContextInfo info"
    by (simp_all add: ctxSampled_def ctxUnsampled_def ctxMalformed_def zap_Reflect_def
          zap_String_def)
  have v1: "fst (parseFields s0 ([zap_String ''k'' ''v''] @ [ctxSampled] @ []) []) =
     [zap_String ''k'' ''v'', zap_Bool ''logging.googleapis.com/trace_sampled'' True,
      zap_String ''logging.googleapis.com/trace'' ''t1'',
      zap_String ''logging.googleapis.com/spanId'' ''s1'', zap_String ''grpc_method'' ''/svc/M'']"
    by code_simp
  have v2: "fst (parseFields s0 ([zap_String ''k'' ''v''] @ [ctxUnsampled] @ []) []) =
     [zap_String ''k'' ''v'', zap_String ''grpc_method'' ''/svc/M'',
      zap_String ''request_id'' ''r1'']"
    by code_simp
  have nt: "\<forall>g\<in>set ([zap_String ''k'' ''v''] @ []). \<not> isTraceField g \<and> Key g \<noteq> logKeyContextInfo"
    by (simp add: isTraceField_def zap_String_def logKeyContextInfo_def)
  note c1 = contextInfo_expanded [OF k1, of s0 "[zap_String ''k'' ''v'']" "[]" "[]"]
  note c2 = contextInfo_expanded [OF k2, of s0 "[zap_String ''k'' ''v'']" "[]" "[]"]
  note c3 = contextInfo_expanded [OF k3, of s0 "[zap_String ''k'' ''v'']" "[]" "[]"]
  have a: "set [zap_Bool ''logging.googleapis.com/trace_sampled'' True,
        zap_String ''logging.googleapis.com/trace'' ''t1'',
        zap_String ''logging.googleapis.com/spanId'' ''s1'']
     \<subseteq> set (fst (parseFields s0 ([zap_String ''k'' ''v''] @ [ctxSampled] @ []) []))"
    using c1 i1 by simp
  have b: "\<forall>g\<in>set (fst (parseFields s0 ([zap_String ''k'' ''v''] @ [ctxUnsampled] @ []) [])).
             \<not> isTraceField g"
    using c2 i2 nt by simp
  have b': "filter isTraceField
              (fst (parseFields s0 ([zap_String ''k'' ''v''] @ [ctxUnsampled] @ []) [])) = []"
    using b by (simp add: filter_empty_conv)
  have c: "parseFields s0 ([zap_String ''k'' ''v''] @ [ctxMalformed] @ []) [] =
     parseFields s0 ([zap_String ''k'' ''v''] @ []) []"
    using c3 i3 by blast
  from k1 k2 k3 v1 v2 a b' c show ?thesis by blast
qed

section \<open>Labels\<close>

lemma forward_not_label: "g \<in> set (fst (parseFields s xs msg)) \<Longrightarrow> \<not> isLabel g"
proof -
  assume "g \<in> set (fst (parseFields s xs msg))"
  from forward_members [OF this] show ?thesis
  proof
    assume "\<exists>h\<in>set xs. g \<in> set (emit s msg h)"
    then show ?thesis using emit_not_label by blast
  next
    assume "g = zap_Object ''logging.googleapis.com/labels''
                  (ILabels (map labelEntry (filter isLabel xs)))"
    then show ?thesis
      by (simp add: isLabel_def zap_Object_def HasPrefix_def logKeyLabelPrefix_def)
  qed
qed

lemma emit_labels_key:
  "g \<in> set (emit s msg h) \<Longrightarrow> Key g = ''logging.googleapis.com/labels'' \<Longrightarrow>
   Key h = ''logging.googleapis.com/labels''"
  using emit_keys [of g s msg h] by auto

lemma concat_emit_no_labels_key:
  "\<forall>h\<in>set xs. Key h \<noteq> ''logging.googleapis.com/labels'' \<Longrightarrow>
   filter (\<lambda>g. Key g = ''logging.googleapis.com/labels'') (concat (map (emit s msg) xs)) = []"
  by (auto simp: filter_empty_conv dest: emit_labels_key)

text \<open>
  Claim C4. The forward fields of the classifier are the forward fields of the sequence
  without its label-prefixed fields, which are the per-field outputs of those fields and
  nothing else, followed, when there is at least one label-prefixed field, by one object
  under \<open>logging.googleapis.com/labels\<close> whose entries are, in order, the string fields
  \<open>(key without the prefix, String of the field)\<close> of the label-prefixed fields. No forward
  field has a label-prefixed key. When the call passes no field under the key
  \<open>logging.googleapis.com/labels\<close> itself, the forward fields hold exactly one field under
  that key if there is a label-prefixed field and none otherwise.
\<close>

theorem labels_collected:
  "fst (parseFields s xs msg) =
     fst (parseFields s (filter (\<lambda>f. \<not> isLabel f) xs) msg) @
     (if filter isLabel xs = [] then []
      else [zap_Object ''logging.googleapis.com/labels''
              (ILabels (map labelEntry (filter isLabel xs)))]) \<and>
   fst (parseFields s (filter (\<lambda>f. \<not> isLabel f) xs) msg) =
     concat (map (emit s msg) (filter (\<lambda>f. \<not> isLabel f) xs)) \<and>
   (\<forall>g\<in>set (fst (parseFields s xs msg)). \<not> isLabel g) \<and>
   ((\<forall>h\<in>set xs. Key h \<noteq> ''logging.googleapis.com/labels'') \<longrightarrow>
      length (filter (\<lambda>g. Key g = ''logging.googleapis.com/labels'')
                (fst (parseFields s xs msg))) =
      (if filter isLabel xs = [] then 0 else 1))"
proof (intro conjI ballI impI)
  have r: "filter isLabel (filter (\<lambda>f. \<not> isLabel f) xs) = []"
    by (simp add: filter_empty_conv)
  show rest: "fst (parseFields s (filter (\<lambda>f. \<not> isLabel f) xs) msg) =
     concat (map (emit s msg) (filter (\<lambda>f. \<not> isLabel f) xs))"
    by (simp add: forward_eq r)
  show "fst (parseFields s xs msg) =
     fst (parseFields s (filter (\<lambda>f. \<not> isLabel f) xs) msg) @
     (if filter isLabel xs = [] then []
      else [zap_Object ''logging.googleapis.com/labels''
              (ILabels (map labelEntry (filter isLabel xs)))])"
    unfolding rest concat_emit_filter by (rule forward_eq)
next
  fix g assume "g \<in> set (fst (parseFields s xs msg))"
  then show "\<not> isLabel g" by (rule forward_not_label)
next
  assume "\<forall>h\<in>set xs. Key h \<noteq> ''logging.googleapis.com/labels''"
  then have "filter (\<lambda>g. Key g = ''logging.googleapis.com/labels'')
               (concat (map (emit s msg) xs)) = []"
    by (rule concat_emit_no_labels_key)
  then show "length (filter (\<lambda>g. Key g = ''logging.googleapis.com/labels'')
                (fst (parseFields s xs msg))) =
      (if filter isLabel xs = [] then 0 else 1)"
    unfolding forward_eq by (simp add: zap_Object_def)
qed

theorem labels_collected_witness:
  "fst (parseFields s0 [Label ''a'' ''1'', zap_String ''k'' ''v'', Label ''b'' ''2''] []) =
     [zap_String ''k'' ''v'',
      zap_Object ''logging.googleapis.com/labels''
        (ILabels [zap_String ''a'' ''1'', zap_String ''b'' ''2''])] \<and>
   filter isLabel [Label ''a'' ''1'', zap_String ''k'' ''v'', Label ''b'' ''2''] =
     [Label ''a'' ''1'', Label ''b'' ''2''] \<and>
   length (filter (\<lambda>g. Key g = ''logging.googleapis.com/labels'')
      (fst (parseFields s0 [Label ''a'' ''1'', zap_String ''k'' ''v'', Label ''b'' ''2''] []))) = 1 \<and>
   fst (parseFields s0 [zap_String ''k'' ''v''] []) = [zap_String ''k'' ''v'']"
proof -
  have l: "filter isLabel [Label ''a'' ''1'', zap_String ''k'' ''v'', Label ''b'' ''2''] =
     [Label ''a'' ''1'', Label ''b'' ''2'']"
    by code_simp
  have nk: "\<forall>h\<in>set [Label ''a'' ''1'', zap_String ''k'' ''v'', Label ''b'' ''2''].
              Key h \<noteq> ''logging.googleapis.com/labels''"
    by (simp add: Label_def zap_String_def logKeyLabelPrefix_def)
  have v: "fst (parseFields s0 [Label ''a'' ''1'', zap_String ''k'' ''v'', Label ''b'' ''2''] []) =
     [zap_String ''k'' ''v'',
      zap_Object ''logging.googleapis.com/labels''
        (ILabels [zap_String ''a'' ''1'', zap_String ''b'' ''2''])]"
    by code_simp
  have w: "fst (parseFields s0 [zap_String ''k'' ''v''] []) = [zap_String ''k'' ''v'']"
    by code_simp
  note lc = labels_collected [of s0 "[Label ''a'' ''1'', zap_String ''k'' ''v'', Label ''b'' ''2'']" "[]"]
  have "length (filter (\<lambda>g. Key g = ''logging.googleapis.com/labels'')
      (fst (parseFields s0 [Label ''a'' ''1'', zap_String ''k'' ''v'', Label ''b'' ''2''] []))) =
      (if filter isLabel [Label ''a'' ''1'', zap_String ''k'' ''v'', Label ''b'' ''2''] = []
       then 0 else 1)"
    by (rule lc [THEN conjunct2, THEN conjunct2, THEN conjunct2, THEN mp, OF nk])
  then have c: "length (filter (\<lambda>g. Key g = ''logging.googleapis.com/labels'')
      (fst (parseFields s0 [Label ''a'' ''1'', zap_String ''k'' ''v'', Label ''b'' ''2''] []))) = 1"
    unfolding l by simp
  from l v w c show ?thesis by (intro conjI)
qed

section \<open>Scopes and writes\<close>

lemma emit_plain: "\<not> reserved s f \<Longrightarrow> emit s msg f = [f]"
  by (auto simp add: reserved_def emit_def parseField_def pstate0_def split: option.splits)

lemma step_plain: "\<not> reserved s f \<Longrightarrow> parseField s msg st f = st\<lparr>p_fs := p_fs st @ [f]\<rparr>"
  by (auto simp add: reserved_def parseField_def split: option.splits)

lemma fold_plain:
  "\<forall>f\<in>set xs. \<not> reserved s f \<Longrightarrow>
   foldl (parseField s msg) st xs = st\<lparr>p_fs := p_fs st @ xs\<rparr>"
  by (induction xs arbitrary: st) (simp_all add: step_plain)

lemma parseFields_plain:
  "\<forall>f\<in>set xs. \<not> reserved s f \<Longrightarrow> parseFields s xs msg = (xs, [], defaultSlack, [])"
  by (simp add: parseFields_def fold_plain pstate0_def)

lemma emit_parser_only: "errorPraser s' = errorPraser s \<Longrightarrow> emit s' msg f = emit s msg f"
  by (simp add: emit_def parseField_def pstate0_def split: option.splits iface.splits prod.splits)

lemma forward_parser_only:
  "errorPraser s' = errorPraser s \<Longrightarrow> fst (parseFields s' xs msg) = fst (parseFields s xs msg)"
proof -
  assume "errorPraser s' = errorPraser s"
  then have "emit s' msg = emit s msg"
    by (intro ext emit_parser_only)
  then show ?thesis by (simp add: forward_eq)
qed

lemma With_fields: "fields_fld (With s xs) = fields_fld s @ fst (parseFields s xs [])"
  by (simp add: With_def Let_def split: prod.splits)

lemma With_parser: "errorPraser (With s xs) = errorPraser s"
  by (simp add: With_def Let_def split: prod.splits)

lemma With_svcCtx: "svcCtx (With s xs) = svcCtx s"
  by (simp add: With_def Let_def split: prod.splits)

lemma With_parent: "parent (With s xs) = parent s"
  by (simp add: With_def Let_def split: prod.splits)

lemma With_user:
  "user (With s xs) = (if fst (snd (parseFields s xs [])) = [] then user s
                       else fst (snd (parseFields s xs [])))"
  by (simp add: With_def Let_def split: prod.splits)

lemma Write_inner:
  "w_inner (Write x s ent fs0) =
    [(prefixed ent,
      fst (parseFields s fs0 [Message (prefixed ent)]) @ fields_fld s @
      metaFields x s (prefixed ent)
        (if fst (snd (parseFields s fs0 [Message (prefixed ent)])) = [] then user s
         else fst (snd (parseFields s fs0 [Message (prefixed ent)]))))]"
  by (simp add: Write_def Let_def metaFields_def split: prod.splits)



lemma Write_chain:
  "map snd (w_inner (Write x (With (With a xs) ys) ent fs0)) =
    [fst (parseFields a fs0 [Message (prefixed ent)]) @
     (fields_fld a @ fst (parseFields a xs []) @ fst (parseFields a ys [])) @
     metaFields x a (prefixed ent)
       (if fst (snd (parseFields (With (With a xs) ys) fs0 [Message (prefixed ent)])) = []
        then user (With (With a xs) ys)
        else fst (snd (parseFields (With (With a xs) ys) fs0 [Message (prefixed ent)])))]"
proof -
  have p: "errorPraser (With (With a xs) ys) = errorPraser a"
    and p1: "errorPraser (With a xs) = errorPraser a"
    by (simp_all add: With_parser)
  have m: "\<And>e u. metaFields x (With (With a xs) ys) e u = metaFields x a e u"
    by (simp add: metaFields_def With_svcCtx)
  show ?thesis
    by (simp add: Write_inner With_fields forward_parser_only [OF p]
          forward_parser_only [OF p1] m)
qed

text \<open>
  Claim C1, as amended. For a decorator \<open>a\<close> and field sequences \<open>xs\<close>, \<open>ys\<close>, \<open>fs0\<close>, the
  one call of the inner core's \<open>Write\<close> made by \<open>a.With(xs).With(ys).Write(ent, fs0)\<close>
  receives the classifier's forward fields of \<open>fs0\<close>, then the fields \<open>a\<close> holds, then the
  forward fields of \<open>xs\<close>, then those of \<open>ys\<close>, then the three objects the decorator adds.
  When no field of \<open>xs\<close>, \<open>ys\<close>, \<open>fs0\<close> is reserved, this is \<open>fs0\<close>, \<open>a\<close>'s fields, \<open>xs\<close>,
  \<open>ys\<close>; writing \<open>xs\<close>, \<open>ys\<close>, \<open>fs0\<close> directly on \<open>a\<close> forwards the same fields in the order
  \<open>xs\<close>, \<open>ys\<close>, \<open>fs0\<close>, \<open>a\<close>'s fields.
\<close>

theorem With_then_Write_order:
  "map snd (w_inner (Write x (With (With a xs) ys) ent fs0)) =
    [fst (parseFields a fs0 [Message (prefixed ent)]) @
     (fields_fld a @ fst (parseFields a xs []) @ fst (parseFields a ys [])) @
     metaFields x a (prefixed ent)
       (if fst (snd (parseFields (With (With a xs) ys) fs0 [Message (prefixed ent)])) = []
        then user (With (With a xs) ys)
        else fst (snd (parseFields (With (With a xs) ys) fs0 [Message (prefixed ent)])))] \<and>
   ((\<forall>f\<in>set (xs @ ys @ fs0). \<not> reserved a f) \<longrightarrow>
      map snd (w_inner (Write x (With (With a xs) ys) ent fs0)) =
        [fs0 @ (fields_fld a @ xs @ ys) @ metaFields x a (prefixed ent) (user a)] \<and>
      map snd (w_inner (Write x a ent (xs @ ys @ fs0))) =
        [(xs @ ys @ fs0) @ fields_fld a @ metaFields x a (prefixed ent) (user a)])"
proof (intro conjI impI)
  show "map snd (w_inner (Write x (With (With a xs) ys) ent fs0)) =
    [fst (parseFields a fs0 [Message (prefixed ent)]) @
     (fields_fld a @ fst (parseFields a xs []) @ fst (parseFields a ys [])) @
     metaFields x a (prefixed ent)
       (if fst (snd (parseFields (With (With a xs) ys) fs0 [Message (prefixed ent)])) = []
        then user (With (With a xs) ys)
        else fst (snd (parseFields (With (With a xs) ys) fs0 [Message (prefixed ent)])))]"
    by (rule Write_chain)
next
  assume plain: "\<forall>f\<in>set (xs @ ys @ fs0). \<not> reserved a f"
  have r1: "\<And>f. reserved (With a xs) f = reserved a f"
    and r2: "\<And>f. reserved (With (With a xs) ys) f = reserved a f"
    by (simp_all add: reserved_def With_parser)
  have px: "\<And>msg. parseFields a xs msg = (xs, [], defaultSlack, [])"
    and py: "\<And>msg. parseFields a ys msg = (ys, [], defaultSlack, [])"
    and py1: "\<And>msg. parseFields (With a xs) ys msg = (ys, [], defaultSlack, [])"
    and pf: "\<And>msg. parseFields a fs0 msg = (fs0, [], defaultSlack, [])"
    and pf2: "\<And>msg. parseFields (With (With a xs) ys) fs0 msg = (fs0, [], defaultSlack, [])"
    and pall: "\<And>msg. parseFields a (xs @ ys @ fs0) msg = (xs @ ys @ fs0, [], defaultSlack, [])"
    using plain by (simp_all add: parseFields_plain r1 r2)
  have u: "user (With (With a xs) ys) = user a"
    by (simp add: With_user px py1)
  show "map snd (w_inner (Write x (With (With a xs) ys) ent fs0)) =
        [fs0 @ (fields_fld a @ xs @ ys) @ metaFields x a (prefixed ent) (user a)]"
    unfolding Write_chain by (simp add: px py pf pf2 u)
  show "map snd (w_inner (Write x a ent (xs @ ys @ fs0))) =
        [(xs @ ys @ fs0) @ fields_fld a @ metaFields x a (prefixed ent) (user a)]"
    unfolding Write_inner by (simp add: pall)
qed


theorem With_then_Write_order_witness:
  "\<not> reserved s0 (zap_String ''x'' ''1'') \<and> \<not> reserved s0 (zap_String ''y'' ''2'') \<and>
   \<not> reserved s0 (zap_String ''f'' ''3'') \<and>
   map snd (w_inner (Write extern0 (With (With s0 [zap_String ''x'' ''1'']) [zap_String ''y'' ''2''])
              ent0 [zap_String ''f'' ''3''])) =
     [[zap_String ''f'' ''3'', zap_String ''x'' ''1'', zap_String ''y'' ''2''] @
      metaFields extern0 s0 (prefixed ent0) []]"
proof -
  have r: "\<not> reserved s0 (zap_String ''x'' ''1'')" "\<not> reserved s0 (zap_String ''y'' ''2'')"
    "\<not> reserved s0 (zap_String ''f'' ''3'')"
    by (simp_all add: reserved_def zap_String_def HasPrefix_def logKeyLabelPrefix_def
          logKeyContextInfo_def logKeySlackNotification_def s0_def)
  then have h: "\<forall>f\<in>set ([zap_String ''x'' ''1''] @ [zap_String ''y'' ''2''] @ [zap_String ''f'' ''3'']).
                 \<not> reserved s0 f"
    by simp
  have e: "fields_fld s0 = []" "user s0 = []"
    by (simp_all add: s0_def)
  from With_then_Write_order [of extern0 s0 "[zap_String ''x'' ''1'']" "[zap_String ''y'' ''2'']"
         ent0 "[zap_String ''f'' ''3'']", THEN conjunct2, THEN mp, OF h, THEN conjunct1]
  have "map snd (w_inner (Write extern0 (With (With s0 [zap_String ''x'' ''1''])
              [zap_String ''y'' ''2'']) ent0 [zap_String ''f'' ''3''])) =
     [[zap_String ''f'' ''3'', zap_String ''x'' ''1'', zap_String ''y'' ''2''] @
      metaFields extern0 s0 (prefixed ent0) []]"
    by (simp add: e)
  with r show ?thesis by (intro conjI)
qed

theorem With_then_Write_order_counterexample:
  "map snd (w_inner (Write extern0 (With (With s0 [zap_String ''x'' ''1'']) [zap_String ''y'' ''2''])
              ent0 [zap_String ''f'' ''3''])) =
     [[zap_String ''f'' ''3'', zap_String ''x'' ''1'', zap_String ''y'' ''2'',
       zap_Object ''logging.googleapis.com/sourceLocation''
         (ISourceLocation \<lparr>sl_file = [], sl_line = 0, sl_function = []\<rparr>),
       zap_Object ''serviceContext'' (IServiceContext \<lparr>Service = ''svc'', Version = ''v1''\<rparr>),
       zap_Object ''context''
         (IErrorReportingContext
            \<lparr>reportLocation = \<lparr>filePath = [], lineNumber = 0, functionName = []\<rparr>,
             ctx_user = []\<rparr>)]] \<and>
   map snd (w_inner (Write extern0 s0 ent0
              ([zap_String ''x'' ''1''] @ [zap_String ''y'' ''2''] @ [zap_String ''f'' ''3'']))) =
     [[zap_String ''x'' ''1'', zap_String ''y'' ''2'', zap_String ''f'' ''3'',
       zap_Object ''logging.googleapis.com/sourceLocation''
         (ISourceLocation \<lparr>sl_file = [], sl_line = 0, sl_function = []\<rparr>),
       zap_Object ''serviceContext'' (IServiceContext \<lparr>Service = ''svc'', Version = ''v1''\<rparr>),
       zap_Object ''context''
         (IErrorReportingContext
            \<lparr>reportLocation = \<lparr>filePath = [], lineNumber = 0, functionName = []\<rparr>,
             ctx_user = []\<rparr>)]] \<and>
   take 3 (concat (map snd (w_inner (Write extern0
              (With (With s0 [zap_String ''x'' ''1'']) [zap_String ''y'' ''2''])
              ent0 [zap_String ''f'' ''3''])))) \<noteq>
     [zap_String ''x'' ''1''] @ [zap_String ''y'' ''2''] @ [zap_String ''f'' ''3'']"
  by code_simp

section \<open>The directive of a derived scope\<close>

lemma With_flag:
  "enableSlack_fld (With s xs) = (fst (snd (snd (parseFields s xs []))) = enableSlack)"
  by (simp add: With_def Let_def split: prod.splits)

lemma With_dest:
  "slackURL (With s xs) =
     (if snd (snd (snd (parseFields s xs []))) \<noteq> [] then snd (snd (snd (parseFields s xs [])))
      else slackURL s)"
  by (simp add: With_def Let_def split: prod.splits)

text \<open>
  Claim C2 at the failing input. A scope derived with the Slack marker has the flag
  set; a scope derived from it with one ordinary field has the flag cleared, although the
  classifier left the directive at \<open>defaultSlack\<close> there. The destination set by a marker
  is kept by the second derivation. In general the flag of a derived scope is read from
  the classifier's directive alone, never from the parent.
\<close>

theorem With_drops_inherited_flag:
  "enableSlack_fld (With a [Slack []]) = True \<and>
   fst (snd (snd (parseFields (With a [Slack []]) [zap_String ''k'' ''v''] []))) = defaultSlack \<and>
   enableSlack_fld (With (With a [Slack []]) [zap_String ''k'' ''v'']) = False \<and>
   slackURL (With (With a [Slack [''https://other'']]) [zap_String ''k'' ''v'']) = ''https://other'' \<and>
   enableSlack_fld (With s xs) = (fst (snd (snd (parseFields s xs []))) = enableSlack)"
proof -
  have k: "\<not> reserved s' (zap_String ''k'' ''v'')" if "errorPraser s' = None" for s'
    using that by (simp add: reserved_def zap_String_def HasPrefix_def logKeyLabelPrefix_def
          logKeyContextInfo_def logKeySlackNotification_def)
  have p: "parseFields s' [zap_String ''k'' ''v''] [] = ([zap_String ''k'' ''v''], [], defaultSlack, [])"
    for s'
    by (simp add: parseFields_def parseField_def pstate0_def zap_String_def HasPrefix_def
          logKeyLabelPrefix_def logKeyContextInfo_def logKeySlackNotification_def
          split: option.splits)
  have q: "parseFields a [Slack []] [] = ([], [], enableSlack, slackURL a)"
    by (simp add: parseFields_def parseField_def pstate0_def Slack_def zap_Bool_def HasPrefix_def
          logKeyLabelPrefix_def logKeyContextInfo_def logKeySlackNotification_def)
  have q': "parseFields a [Slack [''https://other'']] [] = ([], [], enableSlack, ''https://other'')"
    by (simp add: parseFields_def parseField_def pstate0_def Slack_def zap_String_def HasPrefix_def
          logKeyLabelPrefix_def logKeyContextInfo_def logKeySlackNotification_def)
  show ?thesis
    by (simp add: With_flag With_dest p q q')
qed

section \<open>The write path\<close>


lemma notification_header:
  "slackurl \<noteq> [] \<Longrightarrow> levelColorMap (Level e) = Some color \<Longrightarrow>
   \<exists>hf rest. hd (sendSlackNotification x s slackurl e fs) =
     Delivery slackurl
       \<lparr>Attachments =
          [\<lparr>Color = color,
            Blocks = SectionBlock ''section''
                       (Some (mrkdwn (Message e) (Caller_String x (Caller e)))) hf # rest\<rparr>]\<rparr>"
  by (simp add: sendSlackNotification_def Let_def)

text \<open>
  Claim C7. If the logger name of the entry is neither empty nor \<open>unknown\<close>, the entry
  handed to the inner core, and to the notification task when one is started, carries the
  message \<open>logger name, ": ", original message\<close>; otherwise it carries the original message.
  A notification task that delivers (non-empty destination, a level with a colour) puts
  the message of the entry it was handed in the header of its payload.
\<close>

theorem Write_message_prefix:
  "(LoggerName ent \<noteq> [] \<and> LoggerName ent \<noteq> ''unknown'' \<longrightarrow>
      map (\<lambda>c. Message (fst c)) (w_inner (Write x s ent fs0)) =
        [LoggerName ent @ '': '' @ Message ent] \<and>
      (\<forall>t\<in>set (w_spawned (Write x s ent fs0)).
         Message (fst (snd t)) = LoggerName ent @ '': '' @ Message ent)) \<and>
   (LoggerName ent = [] \<or> LoggerName ent = ''unknown'' \<longrightarrow>
      map (\<lambda>c. Message (fst c)) (w_inner (Write x s ent fs0)) = [Message ent] \<and>
      (\<forall>t\<in>set (w_spawned (Write x s ent fs0)). Message (fst (snd t)) = Message ent)) \<and>
   (slackurl \<noteq> [] \<and> levelColorMap (Level e) = Some color \<longrightarrow>
      (\<exists>hf rest. hd (sendSlackNotification x s' slackurl e fs) =
         Delivery slackurl
           \<lparr>Attachments =
              [\<lparr>Color = color,
                Blocks = SectionBlock ''section''
                           (Some (mrkdwn (Message e) (Caller_String x (Caller e)))) hf # rest\<rparr>]\<rparr>))"
proof -
  have sp: "\<forall>t\<in>set (w_spawned (Write x s ent fs0)). fst (snd t) = prefixed ent"
    by (simp add: Write_def Let_def split: prod.splits)
  have inn: "map (\<lambda>c. Message (fst c)) (w_inner (Write x s ent fs0)) = [Message (prefixed ent)]"
    by (simp add: Write_inner)
  have written: "(LoggerName ent \<noteq> [] \<and> LoggerName ent \<noteq> ''unknown'' \<longrightarrow>
      map (\<lambda>c. Message (fst c)) (w_inner (Write x s ent fs0)) =
        [LoggerName ent @ '': '' @ Message ent] \<and>
      (\<forall>t\<in>set (w_spawned (Write x s ent fs0)).
         Message (fst (snd t)) = LoggerName ent @ '': '' @ Message ent)) \<and>
   (LoggerName ent = [] \<or> LoggerName ent = ''unknown'' \<longrightarrow>
      map (\<lambda>c. Message (fst c)) (w_inner (Write x s ent fs0)) = [Message ent] \<and>
      (\<forall>t\<in>set (w_spawned (Write x s ent fs0)). Message (fst (snd t)) = Message ent))"
    unfolding inn using sp by (auto simp: prefixed_def)
  have header: "slackurl \<noteq> [] \<and> levelColorMap (Level e) = Some color \<longrightarrow>
      (\<exists>hf rest. hd (sendSlackNotification x s' slackurl e fs) =
         Delivery slackurl
           \<lparr>Attachments =
              [\<lparr>Color = color,
                Blocks = SectionBlock ''section''
                           (Some (mrkdwn (Message e) (Caller_String x (Caller e)))) hf # rest\<rparr>]\<rparr>)"
    using notification_header [of slackurl e color x s' fs] by blast
  from written header show ?thesis by (intro conjI) blast+
qed


theorem Write_message_prefix_witness:
  "LoggerName ent0 \<noteq> [] \<and> LoggerName ent0 \<noteq> ''unknown'' \<and>
   map (\<lambda>c. Message (fst c)) (w_inner (Write extern0 s0 ent0 [Slack []])) = [''svc: boom''] \<and>
   map (\<lambda>t. Message (fst (snd t))) (w_spawned (Write extern0 s0 ent0 [Slack []])) =
     [''svc: boom''] \<and>
   LoggerName (ent0\<lparr>LoggerName := ''unknown''\<rparr>) = ''unknown'' \<and>
   map (\<lambda>c. Message (fst c))
     (w_inner (Write extern0 s0 (ent0\<lparr>LoggerName := ''unknown''\<rparr>) [Slack []])) = [''boom''] \<and>
   levelColorMap (Level (prefixed ent0)) = Some ''#D50000'' \<and>
   (\<exists>hf rest. hd (sendSlackNotification extern0 s0 ''https://hook'' (prefixed ent0) []) =
      Delivery ''https://hook''
        \<lparr>Attachments =
           [\<lparr>Color = ''#D50000'',
             Blocks = SectionBlock ''section'' (Some (mrkdwn ''svc: boom'' [])) hf # rest\<rparr>]\<rparr>)"
proof -
  have n: "LoggerName ent0 \<noteq> [] \<and> LoggerName ent0 \<noteq> ''unknown''"
    by (simp add: ent0_def)
  have u: "LoggerName (ent0\<lparr>LoggerName := ''unknown''\<rparr>) = [] \<or>
           LoggerName (ent0\<lparr>LoggerName := ''unknown''\<rparr>) = ''unknown''"
    by simp
  have col: "levelColorMap (Level (prefixed ent0)) = Some ''#D50000''"
    by (simp add: prefixed_def ent0_def levelColorMap_def)
  have h: "''https://hook'' \<noteq> [] \<and> levelColorMap (Level (prefixed ent0)) = Some ''#D50000''"
    using col by simp
  have pm: "Message (prefixed ent0) = ''svc: boom''"
    and pc: "Caller_String extern0 (Caller (prefixed ent0)) = []"
    by (simp_all add: prefixed_def ent0_def extern0_def)
  from Write_message_prefix [of ent0 extern0 s0 "[Slack []]", THEN conjunct1, THEN mp, OF n,
         THEN conjunct1]
  have a: "map (\<lambda>c. Message (fst c)) (w_inner (Write extern0 s0 ent0 [Slack []])) =
           [''svc: boom'']"
    by (simp add: ent0_def)
  have b: "map (\<lambda>t. Message (fst (snd t))) (w_spawned (Write extern0 s0 ent0 [Slack []])) =
           [''svc: boom'']"
    by code_simp
  from Write_message_prefix [of "ent0\<lparr>LoggerName := ''unknown''\<rparr>" extern0 s0 "[Slack []]",
         THEN conjunct2, THEN conjunct1, THEN mp, OF u, THEN conjunct1]
  have c: "map (\<lambda>c. Message (fst c))
     (w_inner (Write extern0 s0 (ent0\<lparr>LoggerName := ''unknown''\<rparr>) [Slack []])) = [''boom'']"
    by (simp add: ent0_def)
  from Write_message_prefix [of ent0 extern0 s0 "[]" "''https://hook''" "prefixed ent0"
         "''#D50000''" s0 "[]", THEN conjunct2, THEN conjunct2, THEN mp, OF h]
  have d: "\<exists>hf rest. hd (sendSlackNotification extern0 s0 ''https://hook'' (prefixed ent0) []) =
      Delivery ''https://hook''
        \<lparr>Attachments =
           [\<lparr>Color = ''#D50000'',
             Blocks = SectionBlock ''section'' (Some (mrkdwn ''svc: boom'' [])) hf # rest\<rparr>]\<rparr>"
    unfolding pm pc .
  from n a b c col d show ?thesis by (intro conjI) simp_all
qed

section \<open>The notifier\<close>

text \<open>
  Claim C10. \<open>DPanicLevel\<close> is encoded as \<open>CRITICAL\<close> and has no entry in \<open>levelColorMap\<close>;
  for every entry at that level, whatever the destination and fields, the notification
  task does nothing but release its wait group slot: no payload is built, no delivery is
  started, nothing is logged.
\<close>

theorem DPanic_not_notified:
  "EncodeLevel DPanicLevel = ''CRITICAL'' \<and> levelColorMap DPanicLevel = None \<and>
   (Level ent = DPanicLevel \<longrightarrow> sendSlackNotification x s slackurl ent fs = [WGDone])"
  by (simp add: levelColorMap_def sendSlackNotification_def)

theorem DPanic_not_notified_witness:
  "Level (ent0\<lparr>Level := DPanicLevel\<rparr>) = DPanicLevel \<and>
   sendSlackNotification extern0 s0 ''https://hook'' (ent0\<lparr>Level := DPanicLevel\<rparr>)
     [zap_String ''k'' ''v''] = [WGDone] \<and>
   length (sendSlackNotification extern0 s0 ''https://hook'' ent0 [zap_String ''k'' ''v'']) = 2"
proof -
  have l: "Level (ent0\<lparr>Level := DPanicLevel\<rparr>) = DPanicLevel" by simp
  from DPanic_not_notified [of "ent0\<lparr>Level := DPanicLevel\<rparr>" extern0 s0 "''https://hook''"
         "[zap_String ''k'' ''v'']", THEN conjunct2, THEN conjunct2, THEN mp, OF l]
  have a: "sendSlackNotification extern0 s0 ''https://hook'' (ent0\<lparr>Level := DPanicLevel\<rparr>)
     [zap_String ''k'' ''v''] = [WGDone]" .
  have b: "length (sendSlackNotification extern0 s0 ''https://hook'' ent0
             [zap_String ''k'' ''v'']) = 2"
    by code_simp
  from l a b show ?thesis by (intro conjI)
qed

section \<open>The retry decision\<close>





section \<open>The notification payload\<close>



















end
